theory Spec2Isabelle
  imports Main "HOL-Library.Sublist" "HOL-Library.Log_Nat"
begin

section \<open>The keys table of the dashboard (component \<open>AllKeysTable\<close>)\<close>

text \<open>
  The component is a React function component. Its local state (the \<open>useState\<close> slots)
  is a record, every effect and event handler is a function from the props and the state to
  the new state, and a selection callback handed down by the parent (\<open>setSelectedTeam\<close>,
  \<open>setCurrentOrg\<close>) is a value in the list of calls a handler makes. A click on a
  pagination button gives the page it hands to \<open>onPageChange\<close>.
\<close>

subsection \<open>JavaScript values\<close>

text \<open>
  A field of a record that came from the server holds a value, \<open>null\<close> or \<open>undefined\<close>.
  A string is a list of characters, one for each code unit.
\<close>

datatype 'a nullable = Undefined | Null | Val 'a

text \<open>Truthiness of a string-valued slot: \<open>null\<close>, \<open>undefined\<close> and \<open>""\<close> are falsy.\<close>

fun truthy :: "string nullable \<Rightarrow> bool" where
  "truthy (Val s) = (s \<noteq> [])"
| "truthy Null = False"
| "truthy Undefined = False"

text \<open>\<open>v === s\<close> for a slot \<open>v\<close> and a string \<open>s\<close>.\<close>

definition strict_eq :: "string nullable \<Rightarrow> string \<Rightarrow> bool" where
  "strict_eq v s = (v = Val s)"

text \<open>\<open>s.includes(t)\<close>: \<open>t\<close> occurs in \<open>s\<close> as a contiguous run.\<close>

definition str_includes :: "string \<Rightarrow> string \<Rightarrow> bool" where
  "str_includes s t = sublist t s"

text \<open>\<open>s.slice(0, n)\<close>.\<close>

definition slice0 :: "nat \<Rightarrow> string \<Rightarrow> string" where
  "slice0 n s = take n s"

text \<open>
  Functions of the JavaScript runtime that the component calls and whose results depend on
  Unicode tables or on the locale: \<open>s.toLowerCase()\<close>,
  \<open>new Date(v).toLocaleDateString()\<close>, \<open>new Date(v).toLocaleString()\<close> and
  \<open>n.toFixed(4)\<close>. They are parameters of the model: every result below holds for
  whatever functions the runtime provides. The type \<open>'n\<close> stands for the numbers in
  the records, which the component only formats.
\<close>

record 'n Host =
  toLowerCase :: "string \<Rightarrow> string"
  toLocaleDateString :: "string \<Rightarrow> string"
  toLocaleString :: "string \<Rightarrow> string"
  toFixed4 :: "'n \<Rightarrow> string"

subsection \<open>Numbers\<close>

text \<open>
  The page numbers are JavaScript numbers, on which the component computes: IEEE 754
  double precision values. A finite value is the rational number it denotes (the two
  zeros are one value: they are equal under \<open>===\<close> and the component never divides).
\<close>

datatype number = Fin rat | PosInf | NegInf | NaN

text \<open>\<open>2\<close> to the power \<open>k\<close>, for an integer \<open>k\<close>.\<close>

definition pow2 :: "int \<Rightarrow> rat" where
  "pow2 k = (if 0 \<le> k then 2 ^ nat k else 1 / 2 ^ nat (- k))"

text \<open>For \<open>x > 0\<close>, the exponent \<open>e\<close> with \<open>pow2 e \<le> x < pow2 (e + 1)\<close>.\<close>

definition ilog2 :: "rat \<Rightarrow> int" where
  "ilog2 x = (if 1 \<le> x then bitlen \<lfloor>x\<rfloor> - 1 else - bitlen (\<lceil>1 / x\<rceil> - 1))"

text \<open>Rounding to the nearest integer, a tie to the even one.\<close>

definition round_even :: "rat \<Rightarrow> int" where
  "round_even q =
     (let f = \<lfloor>q\<rfloor>; d = q - of_int f
      in if d < 1 / 2 then f else if 1 / 2 < d then f + 1 else if even f then f else f + 1)"

text \<open>
  The double nearest to a rational number (round to nearest, ties to even): 53 significant
  bits, the unit in the last place not below \<open>pow2 (- 1074)\<close>, and an infinity from
  \<open>pow2 1024\<close> on.
\<close>

definition fl :: "rat \<Rightarrow> number" where
  "fl x =
     (if x = 0 then Fin 0
      else let e = ilog2 \<bar>x\<bar>;
               u = pow2 (max (e - 52) (- 1074));
               y = of_int (round_even (x / u)) * u
           in if pow2 1024 \<le> \<bar>y\<bar> then (if 0 < x then PosInf else NegInf) else Fin y)"




fun js_eq :: "number \<Rightarrow> number \<Rightarrow> bool" where
  "js_eq (Fin x) (Fin y) = (x = y)"
| "js_eq PosInf PosInf = True"
| "js_eq NegInf NegInf = True"
| "js_eq a b = False"


subsection \<open>Data model\<close>

text \<open>
  \<open>KeyResponse\<close>, \<open>Team\<close> and \<open>Organization\<close> are declared outside the component; the
  records below have the fields the component reads. \<open>Team\<close>, \<open>Organization\<close> and \<open>UserResponse\<close> fields carry a prefix
  because \<open>KeyResponse\<close> has fields of the same names.
\<close>

record 'n KeyResponse =
  token :: "string nullable"
  key_alias :: "string nullable"
  key_name :: "string nullable"
  team_id :: "string nullable"
  organization_id :: "string nullable"
  user_id :: "string nullable"
  created_at :: "string nullable"
  created_by :: "string nullable"
  expires :: "string nullable"
  spend :: "'n nullable"
  max_budget :: "'n nullable"
  budget_reset_at :: "string nullable"
  models :: "string list nullable"
  tpm_limit :: "'n nullable"
  rpm_limit :: "'n nullable"

record Team =
  t_team_id :: string
  t_team_alias :: "string nullable"

record Organization =
  o_organization_id :: string
  o_organization_name :: "string nullable"

record UserResponse =
  u_user_id :: string
  u_user_email :: string
  u_user_role :: string

text \<open>The filter predicate set: the keys \<open>'Team ID'\<close>, \<open>'Organization ID'\<close>, \<open>'Key Alias'\<close>.\<close>

record Filters =
  Team_ID :: string
  Organization_ID :: string
  Key_Alias :: string

record Pagination =
  currentPage :: number
  totalPages :: number
  totalCount :: number

text \<open>
  The props (\<open>AllKeysTableProps\<close>) without the three callbacks, with the types the
  interface declares.
\<close>

record 'n Props =
  keys :: "'n KeyResponse list"
  isLoading :: bool
  pagination :: Pagination
  teams :: "Team list option"
  selectedTeam :: "Team option"
  accessToken :: "string option"
  userID :: "string option"
  userRole :: "string option"
  organizations :: "Organization list option"

text \<open>The component's \<open>useState\<close> slots.\<close>

record 'n State =
  selectedKeyId :: "string nullable"
  filters :: Filters
  userList :: "UserResponse list"
  allKeyAliases :: "string list"
  allTeams :: "Team list"
  allOrganizations :: "Organization list"
  filteredKeys :: "'n KeyResponse list"

text \<open>
  Calls of the two selection callbacks. The parent owns the selected team and the current
  organization; \<open>setSelectedTeam\<close> and \<open>setCurrentOrg\<close> are the setters of these two
  slots (\<open>setCurrentOrg\<close> is declared as a \<open>React.Dispatch\<close> of a \<open>SetStateAction\<close>).
\<close>

datatype Call =
  SetSelectedTeam "Team option"
| SetCurrentOrg "Organization option"

record Selection =
  sel_team :: "Team option"
  sel_org :: "Organization option"

fun applyCall :: "Selection \<Rightarrow> Call \<Rightarrow> Selection" where
  "applyCall par (SetSelectedTeam t) = par\<lparr>sel_team := t\<rparr>"
| "applyCall par (SetCurrentOrg og) = par\<lparr>sel_org := og\<rparr>"

definition applyCalls :: "Selection \<Rightarrow> Call list \<Rightarrow> Selection" where
  "applyCalls par cs = foldl applyCall par cs"

subsection \<open>The filter effect (lines 119 to 145)\<close>

text \<open>
  The effect runs on every change of \<open>keys\<close> or \<open>filters\<close>. It guards against a
  \<open>keys\<close> that is \<open>null\<close> although the declared type has none, so the list is optional
  here.
\<close>

definition filterEffect ::
  "'n Host \<Rightarrow> 'n KeyResponse list option \<Rightarrow> 'n State \<Rightarrow> 'n State" where
  "filterEffect h keys_prop s =
     (case keys_prop of
        None \<Rightarrow> s\<lparr>filteredKeys := []\<rparr>
      | Some ks \<Rightarrow>
          let f = filters s;
              result = ks;
              result = (if Team_ID f \<noteq> []
                        then filter (\<lambda>key. strict_eq (team_id key) (Team_ID f)) result
                        else result);
              result = (if Organization_ID f \<noteq> []
                        then filter (\<lambda>key. strict_eq (organization_id key) (Organization_ID f)) result
                        else result);
              result = (if Key_Alias f \<noteq> []
                        then filter (\<lambda>key. case key_alias key of
                                        Val a \<Rightarrow> a \<noteq> [] \<and>
                                          str_includes (toLowerCase h a)
                                            (toLowerCase h (Key_Alias f))
                                      | _ \<Rightarrow> False) result
                        else result)
          in s\<lparr>filteredKeys := result\<rparr>)"





definition no_constraint :: Filters where
  "no_constraint = \<lparr>Team_ID = [], Organization_ID = [], Key_Alias = []\<rparr>"

subsection \<open>The lookup lists (lines 148 to 189)\<close>

text \<open>
  The mount-time effect awaits three fetches in turn and stores each result; the three
  functions below are the steps after each \<open>await\<close>, given what the fetch returned.
\<close>

definition aliasesLoaded :: "string list \<Rightarrow> 'n State \<Rightarrow> 'n State" where
  "aliasesLoaded aliases s = s\<lparr>allKeyAliases := aliases\<rparr>"

definition teamsLoaded :: "Team list \<Rightarrow> 'n State \<Rightarrow> 'n State" where
  "teamsLoaded teamsData s = (if length teamsData > 0 then s\<lparr>allTeams := teamsData\<rparr> else s)"

definition orgsLoaded :: "Organization list \<Rightarrow> 'n State \<Rightarrow> 'n State" where
  "orgsLoaded orgsData s =
     (if length orgsData > 0 then s\<lparr>allOrganizations := orgsData\<rparr> else s)"

definition loadAllFilterData ::
  "string list \<Rightarrow> Team list \<Rightarrow> Organization list \<Rightarrow> 'n State \<Rightarrow> 'n State" where
  "loadAllFilterData aliases teamsData orgsData s =
     orgsLoaded orgsData (teamsLoaded teamsData (aliasesLoaded aliases s))"

text \<open>The effect starts the load only with a truthy access token.\<close>

definition mountEffect ::
  "string option \<Rightarrow> string list \<Rightarrow> Team list \<Rightarrow> Organization list \<Rightarrow> 'n State \<Rightarrow> 'n State" where
  "mountEffect token_prop aliases teamsData orgsData s =
     (case token_prop of
        Some tk \<Rightarrow> if tk \<noteq> [] then loadAllFilterData aliases teamsData orgsData s else s
      | None \<Rightarrow> s)"

text \<open>The effects on a change of the props \<open>teams\<close> and \<open>organizations\<close>.\<close>

definition teamsPropEffect :: "Team list option \<Rightarrow> 'n State \<Rightarrow> 'n State" where
  "teamsPropEffect teams_prop s =
     (case teams_prop of
        Some ts \<Rightarrow>
          if length ts > 0
          then s\<lparr>allTeams := (if length (allTeams s) < length ts then ts else allTeams s)\<rparr>
          else s
      | None \<Rightarrow> s)"

definition organizationsPropEffect :: "Organization list option \<Rightarrow> 'n State \<Rightarrow> 'n State" where
  "organizationsPropEffect orgs_prop s =
     (case orgs_prop of
        Some os \<Rightarrow>
          if length os > 0
          then s\<lparr>allOrganizations :=
                   (if length (allOrganizations s) < length os then os else allOrganizations s)\<rparr>
          else s
      | None \<Rightarrow> s)"

subsection \<open>The filter handlers (lines 202 to 238)\<close>

text \<open>
  \<open>newFilters\<close> is a \<open>Record<string, string>\<close>: a lookup of a missing key is
  \<open>undefined\<close>, here \<open>None\<close>. A handler returns the new state and the calls it makes.
\<close>

definition or_empty :: "string option \<Rightarrow> string" where
  "or_empty v = (case v of Some x \<Rightarrow> x | None \<Rightarrow> [])"

text \<open>The block "Handle Team change": the calls it makes for the new \<open>'Team ID'\<close> value.\<close>

definition teamCalls :: "string option \<Rightarrow> Team list \<Rightarrow> Call list" where
  "teamCalls tv ts =
     (case tv of
        Some v \<Rightarrow>
          if v \<noteq> []
          then (case find (\<lambda>team. t_team_id team = v) ts of
                  Some selectedTeamData \<Rightarrow> [SetSelectedTeam (Some selectedTeamData)]
                | None \<Rightarrow> [])
          else []
      | None \<Rightarrow> [])"

text \<open>The block "Handle Org change".\<close>

definition orgCalls :: "string option \<Rightarrow> Organization list \<Rightarrow> Call list" where
  "orgCalls ov os =
     (case ov of
        Some v \<Rightarrow>
          if v \<noteq> []
          then (case find (\<lambda>og. o_organization_id og = v) os of
                  Some selectedOrg \<Rightarrow> [SetCurrentOrg (Some selectedOrg)]
                | None \<Rightarrow> [])
          else []
      | None \<Rightarrow> [])"

definition handleFilterChange ::
  "(string \<rightharpoonup> string) \<Rightarrow> 'n State \<Rightarrow> 'n State \<times> Call list" where
  "handleFilterChange newFilters s =
     (s\<lparr>filters := \<lparr>Team_ID = or_empty (newFilters ''Team ID''),
                     Organization_ID = or_empty (newFilters ''Organization ID''),
                     Key_Alias = or_empty (newFilters ''Key Alias'')\<rparr>\<rparr>,
      teamCalls (newFilters ''Team ID'') (allTeams s)
        @ orgCalls (newFilters ''Organization ID'') (allOrganizations s))"

definition handleFilterReset :: "'n State \<Rightarrow> 'n State \<times> Call list" where
  "handleFilterReset s =
     (s\<lparr>filters := \<lparr>Team_ID = [], Organization_ID = [], Key_Alias = []\<rparr>\<rparr>,
      [SetSelectedTeam None, SetCurrentOrg None])"

subsection \<open>The columns (lines 241 to 406)\<close>

text \<open>
  What a cell shows: a string, a number, nothing (React shows nothing for \<open>null\<close> and
  \<open>undefined\<close>), or several children in a row. The elements around the content
  (\<open>Tooltip\<close>, \<open>Button\<close>, \<open>span\<close>, \<open>div\<close>) are left out.
\<close>

datatype 'n Node = Text string | Num 'n | Nothing | Nodes "'n Node list"

text \<open>\<open>v ? f(v) : d\<close> for a string-valued slot \<open>v\<close>.\<close>

definition cond :: "string nullable \<Rightarrow> (string \<Rightarrow> 'a) \<Rightarrow> 'a \<Rightarrow> 'a" where
  "cond v f d = (case v of Val x \<Rightarrow> if x \<noteq> [] then f x else d | _ \<Rightarrow> d)"

fun nullish :: "'a nullable \<Rightarrow> bool" where
  "nullish (Val x) = False"
| "nullish Null = True"
| "nullish Undefined = True"

definition keyIdCell :: "'n KeyResponse \<Rightarrow> 'n Node" where
  "keyIdCell k = cond (token k) (\<lambda>v. Text (slice0 7 v @ ''...'')) (Text ''-'')"

definition keyAliasCell :: "'n KeyResponse \<Rightarrow> 'n Node" where
  "keyAliasCell k =
     cond (key_alias k)
       (\<lambda>value. if length value > 20 then Text (slice0 20 value @ ''...'') else Text value)
       (Text ''-'')"

definition secretKeyCell :: "'n KeyResponse \<Rightarrow> 'n Node" where
  "secretKeyCell k = (case key_name k of Val v \<Rightarrow> Text v | _ \<Rightarrow> Nothing)"

definition teamAliasCell :: "'n State \<Rightarrow> 'n KeyResponse \<Rightarrow> 'n Node" where
  "teamAliasCell s k =
     (let team = (case team_id k of
                    Val teamId \<Rightarrow> find (\<lambda>t. t_team_id t = teamId) (allTeams s)
                  | _ \<Rightarrow> None)
      in case team of
           Some t \<Rightarrow> cond (t_team_alias t) Text (Text ''Unknown'')
         | None \<Rightarrow> Text ''Unknown'')"

definition teamIdCell :: "'n KeyResponse \<Rightarrow> 'n Node" where
  "teamIdCell k = cond (team_id k) (\<lambda>v. Text (slice0 7 v @ ''...'')) (Text ''-'')"

definition organizationIdCell :: "'n KeyResponse \<Rightarrow> 'n Node" where
  "organizationIdCell k = cond (organization_id k) Text (Text ''-'')"

definition userEmailCell :: "'n State \<Rightarrow> 'n KeyResponse \<Rightarrow> 'n Node" where
  "userEmailCell s k =
     (let user = (case user_id k of
                    Val userId \<Rightarrow> find (\<lambda>u. u_user_id u = userId) (userList s)
                  | _ \<Rightarrow> None)
      in case user of
           Some u \<Rightarrow> if u_user_email u \<noteq> [] then Text (u_user_email u) else Text ''-''
         | None \<Rightarrow> Text ''-'')"

definition userIdCell :: "'n KeyResponse \<Rightarrow> 'n Node" where
  "userIdCell k =
     cond (user_id k) (\<lambda>userId. Nodes [Text (slice0 7 userId), Text ''...'']) (Text ''-'')"

definition createdAtCell :: "'n Host \<Rightarrow> 'n KeyResponse \<Rightarrow> 'n Node" where
  "createdAtCell h k = cond (created_at k) (\<lambda>v. Text (toLocaleDateString h v)) (Text ''-'')"

definition createdByCell :: "'n KeyResponse \<Rightarrow> 'n Node" where
  "createdByCell k = cond (created_by k) Text (Text ''Unknown'')"

definition expiresCell :: "'n Host \<Rightarrow> 'n KeyResponse \<Rightarrow> 'n Node" where
  "expiresCell h k = cond (expires k) (\<lambda>v. Text (toLocaleDateString h v)) (Text ''Never'')"

text \<open>
  \<open>Number(v).toFixed(4)\<close>: \<open>Number(null)\<close> is \<open>0\<close> and \<open>Number(undefined)\<close> is
  \<open>NaN\<close>, which \<open>toFixed(4)\<close> prints as \<open>0.0000\<close> and \<open>NaN\<close>.
\<close>

definition spendCell :: "'n Host \<Rightarrow> 'n KeyResponse \<Rightarrow> 'n Node" where
  "spendCell h k =
     Text (case spend k of Val n \<Rightarrow> toFixed4 h n | Null \<Rightarrow> ''0.0000'' | Undefined \<Rightarrow> ''NaN'')"

definition budgetCell :: "'n KeyResponse \<Rightarrow> 'n Node" where
  "budgetCell k = (case max_budget k of Val n \<Rightarrow> Num n | _ \<Rightarrow> Text ''Unlimited'')"

definition budgetResetCell :: "'n Host \<Rightarrow> 'n KeyResponse \<Rightarrow> 'n Node" where
  "budgetResetCell h k =
     cond (budget_reset_at k) (\<lambda>v. Text (toLocaleString h v)) (Text ''Never'')"

definition modelsCell :: "'n KeyResponse \<Rightarrow> 'n Node" where
  "modelsCell k =
     (case models k of
        Val ms \<Rightarrow> if length ms > 0 then Nodes (map Text ms) else Text ''-''
      | _ \<Rightarrow> Text ''-'')"

text \<open>\<open>limit !== null ? limit : "Unlimited"\<close>; an \<open>undefined\<close> limit is shown as it is.\<close>

definition limitNode :: "'n nullable \<Rightarrow> 'n Node" where
  "limitNode v = (case v of Null \<Rightarrow> Text ''Unlimited'' | Val n \<Rightarrow> Num n | Undefined \<Rightarrow> Nothing)"

definition rateLimitsCell :: "'n KeyResponse \<Rightarrow> 'n Node" where
  "rateLimitsCell k =
     Nodes [Nodes [Text ''TPM: '', limitNode (tpm_limit k)],
            Nodes [Text ''RPM: '', limitNode (rpm_limit k)]]"

text \<open>The field a column reads through its \<open>accessorKey\<close>.\<close>

datatype Field =
  F_token | F_key_alias | F_key_name | F_team_id | F_organization_id | F_user_id
| F_created_at | F_created_by | F_expires | F_spend | F_max_budget | F_budget_reset_at
| F_models

fun absent :: "Field \<Rightarrow> 'n KeyResponse \<Rightarrow> bool" where
  "absent F_token k = nullish (token k)"
| "absent F_key_alias k = nullish (key_alias k)"
| "absent F_key_name k = nullish (key_name k)"
| "absent F_team_id k = nullish (team_id k)"
| "absent F_organization_id k = nullish (organization_id k)"
| "absent F_user_id k = nullish (user_id k)"
| "absent F_created_at k = nullish (created_at k)"
| "absent F_created_by k = nullish (created_by k)"
| "absent F_expires k = nullish (expires k)"
| "absent F_spend k = nullish (spend k)"
| "absent F_max_budget k = nullish (max_budget k)"
| "absent F_budget_reset_at k = nullish (budget_reset_at k)"
| "absent F_models k = nullish (models k)"

record 'n Column =
  col_id :: "string option"
  header :: "string option"
  accessorKey :: "Field option"
  cell :: "'n KeyResponse \<Rightarrow> 'n Node"

text \<open>
  The expander column shows its button only for a row that can expand, and the table is
  given \<open>getRowCanExpand = () => false\<close>.
\<close>

definition columns :: "'n Host \<Rightarrow> 'n State \<Rightarrow> 'n Column list" where
  "columns h s =
     [\<lparr>col_id = Some ''expander'', header = None, accessorKey = None, cell = (\<lambda>k. Nothing)\<rparr>,
      \<lparr>col_id = None, header = Some ''Key ID'', accessorKey = Some F_token, cell = keyIdCell\<rparr>,
      \<lparr>col_id = None, header = Some ''Key Alias'', accessorKey = Some F_key_alias,
        cell = keyAliasCell\<rparr>,
      \<lparr>col_id = None, header = Some ''Secret Key'', accessorKey = Some F_key_name,
        cell = secretKeyCell\<rparr>,
      \<lparr>col_id = None, header = Some ''Team Alias'', accessorKey = Some F_team_id,
        cell = teamAliasCell s\<rparr>,
      \<lparr>col_id = None, header = Some ''Team ID'', accessorKey = Some F_team_id,
        cell = teamIdCell\<rparr>,
      \<lparr>col_id = None, header = Some ''Organization ID'', accessorKey = Some F_organization_id,
        cell = organizationIdCell\<rparr>,
      \<lparr>col_id = None, header = Some ''User Email'', accessorKey = Some F_user_id,
        cell = userEmailCell s\<rparr>,
      \<lparr>col_id = None, header = Some ''User ID'', accessorKey = Some F_user_id,
        cell = userIdCell\<rparr>,
      \<lparr>col_id = None, header = Some ''Created At'', accessorKey = Some F_created_at,
        cell = createdAtCell h\<rparr>,
      \<lparr>col_id = None, header = Some ''Created By'', accessorKey = Some F_created_by,
        cell = createdByCell\<rparr>,
      \<lparr>col_id = None, header = Some ''Expires'', accessorKey = Some F_expires,
        cell = expiresCell h\<rparr>,
      \<lparr>col_id = None, header = Some ''Spend (USD)'', accessorKey = Some F_spend,
        cell = spendCell h\<rparr>,
      \<lparr>col_id = None, header = Some ''Budget (USD)'', accessorKey = Some F_max_budget,
        cell = budgetCell\<rparr>,
      \<lparr>col_id = None, header = Some ''Budget Reset'', accessorKey = Some F_budget_reset_at,
        cell = budgetResetCell h\<rparr>,
      \<lparr>col_id = None, header = Some ''Models'', accessorKey = Some F_models,
        cell = modelsCell\<rparr>,
      \<lparr>col_id = None, header = Some ''Rate Limits'', accessorKey = None,
        cell = rateLimitsCell\<rparr>]"

text \<open>The columns handed to the table: \<open>columns.filter(col => col.id !== 'expander')\<close>.\<close>

definition shownColumns :: "'n Host \<Rightarrow> 'n State \<Rightarrow> 'n Column list" where
  "shownColumns h s = filter (\<lambda>col. col_id col \<noteq> Some ''expander'') (columns h s)"

text \<open>The cell of the shown column with a given header.\<close>

definition cellOf :: "'n Host \<Rightarrow> 'n State \<Rightarrow> string \<Rightarrow> ('n KeyResponse \<Rightarrow> 'n Node) option" where
  "cellOf h s hd_text =
     map_option cell (find (\<lambda>col. header col = Some hd_text) (shownColumns h s))"

text \<open>What the shown column with a given header displays for a record.\<close>

definition renderCell ::
  "'n Host \<Rightarrow> 'n State \<Rightarrow> string \<Rightarrow> 'n KeyResponse \<Rightarrow> 'n Node option" where
  "renderCell h s hd_text k = map_option (\<lambda>c. c k) (cellOf h s hd_text)"

definition placeholders :: "string set" where
  "placeholders = {''-'', ''Unknown'', ''Never'', ''Unlimited''}"

subsection \<open>Pagination buttons and the two views (lines 465 to 523)\<close>

definition previousDisabled :: "'n Props \<Rightarrow> bool" where
  "previousDisabled p = (isLoading p \<or> js_eq (currentPage (pagination p)) (Fin 1))"

definition nextDisabled :: "'n Props \<Rightarrow> bool" where
  "nextDisabled p =
     (isLoading p \<or> js_eq (currentPage (pagination p)) (totalPages (pagination p)))"



text \<open>
  What the component returns: the detail view with its \<open>keyId\<close>, \<open>keyData\<close> and
  \<open>teams\<close>, or the table with the filter component's \<open>initialValues\<close>, the two
  \<open>disabled\<close> flags and the table's \<open>data\<close>.
\<close>

datatype 'n View =
  KeyInfoView string "'n KeyResponse option" "Team list"
| TableView Filters bool bool "'n KeyResponse list"

fun detailVisible :: "'n View \<Rightarrow> bool" where
  "detailVisible (KeyInfoView i d ts) = True"
| "detailVisible (TableView f a b ks) = False"

fun tableVisible :: "'n View \<Rightarrow> bool" where
  "tableVisible (KeyInfoView i d ts) = False"
| "tableVisible (TableView f a b ks) = True"

definition render :: "'n Props \<Rightarrow> 'n State \<Rightarrow> 'n View" where
  "render p s =
     cond (selectedKeyId s)
       (\<lambda>keyId. KeyInfoView keyId (find (\<lambda>k. strict_eq (token k) keyId) (keys p)) (allTeams s))
       (TableView (filters s) (previousDisabled p) (nextDisabled p) (filteredKeys s))"

text \<open>The button of the Key ID cell: \<open>setSelectedKeyId(info.getValue())\<close>.\<close>

definition selectKey :: "'n KeyResponse \<Rightarrow> 'n State \<Rightarrow> 'n State" where
  "selectKey k s = s\<lparr>selectedKeyId := token k\<rparr>"

text \<open>The detail view's \<open>onClose\<close>: \<open>setSelectedKeyId(null)\<close>.\<close>

definition onClose :: "'n State \<Rightarrow> 'n State" where
  "onClose s = s\<lparr>selectedKeyId := Null\<rparr>"

subsection \<open>Example inputs\<close>

text \<open>
  Records, lookup lists, props and a state on which the results below are evaluated.
  The numbers in the records are integers here, and the functions of \<open>host0\<close> are
  stand-ins for those of a runtime.
\<close>

definition key_a :: "int KeyResponse" where
  "key_a = \<lparr>token = Val ''sk-aaaaaaaa1'', key_alias = Val ''Prod-Key'',
     key_name = Val ''sk-...a1'', team_id = Val ''team-1'', organization_id = Val ''org-1'',
     user_id = Val ''u1'', created_at = Val ''2025-01-01'', created_by = Val ''u1'',
     expires = Null, spend = Val 3, max_budget = Null, budget_reset_at = Null,
     models = Val [''gpt-4''], tpm_limit = Null, rpm_limit = Null\<rparr>"

definition key_b :: "int KeyResponse" where
  "key_b = \<lparr>token = Val [], key_alias = Null, key_name = Null,
     team_id = Val ''team-2'', organization_id = Null, user_id = Null,
     created_at = Null, created_by = Null, expires = Null, spend = Null,
     max_budget = Null, budget_reset_at = Null, models = Null, tpm_limit = Null,
     rpm_limit = Null\<rparr>"

definition key_c :: "int KeyResponse" where
  "key_c = key_a\<lparr>token := Val ''sk-cccccccc3'', key_alias := Val ''staging''\<rparr>"

definition key_d :: "int KeyResponse" where
  "key_d = key_a\<lparr>team_id := Val ''team-9''\<rparr>"

definition team_1 :: Team where
  "team_1 = \<lparr>t_team_id = ''team-1'', t_team_alias = Val ''Alpha''\<rparr>"

definition team_2 :: Team where
  "team_2 = \<lparr>t_team_id = ''team-2'', t_team_alias = Null\<rparr>"

definition org_1 :: Organization where
  "org_1 = \<lparr>o_organization_id = ''org-1'', o_organization_name = Val ''Acme''\<rparr>"

definition org_2 :: Organization where
  "org_2 = \<lparr>o_organization_id = ''org-2'', o_organization_name = Null\<rparr>"

definition state0 :: "int State" where
  "state0 = \<lparr>selectedKeyId = Null,
     filters = \<lparr>Team_ID = ''team-1'', Organization_ID = [], Key_Alias = ''PROD''\<rparr>,
     userList = [], allKeyAliases = [], allTeams = [], allOrganizations = [],
     filteredKeys = [key_b]\<rparr>"

definition state1 :: "int State" where
  "state1 = state0\<lparr>selectedKeyId := Val ''sk-aaaaaaaa1'', allTeams := [team_1, team_2],
     allOrganizations := [org_1, org_2], filteredKeys := []\<rparr>"

definition props0 :: "int Props" where
  "props0 = \<lparr>keys = [key_a, key_b, key_c], isLoading = False,
     pagination = \<lparr>currentPage = Fin 2, totalPages = Fin 3, totalCount = Fin 120\<rparr>,
     teams = Some [team_1], selectedTeam = None, accessToken = Some ''tok'',
     userID = None, userRole = None, organizations = None\<rparr>"

text \<open>
  A lowering for the examples: the letters A to Z, every other character left as it is.
\<close>

definition ascii_lower_char :: "char \<Rightarrow> char" where
  "ascii_lower_char c =
     (case map_of (zip ''ABCDEFGHIJKLMNOPQRSTUVWXYZ'' ''abcdefghijklmnopqrstuvwxyz'') c of
        Some d \<Rightarrow> d
      | None \<Rightarrow> c)"

definition host0 :: "int Host" where
  "host0 = \<lparr>toLowerCase = map ascii_lower_char, toLocaleDateString = (\<lambda>v. v),
     toLocaleString = (\<lambda>v. v), toFixed4 = (\<lambda>n. ''n.0000'')\<rparr>"




definition parent0 :: Selection where
  "parent0 = \<lparr>sel_team = Some team_1, sel_org = Some org_1\<rparr>"

section \<open>Properties\<close>

subsection \<open>Filtering\<close>










text \<open>
  C2. The recomputation depends on the key list and the predicate values only: two states
  with the same predicates get the same filtered list from the same key list, whatever
  their other slots and their previous filtered lists hold, and running the effect again
  changes nothing.
\<close>

theorem recomputation_is_pure:
  "(filters s1 = filters s2 \<longrightarrow>
      filteredKeys (filterEffect h ks s1) = filteredKeys (filterEffect h ks s2))
   \<and> filterEffect h ks (filterEffect h ks s1) = filterEffect h ks s1"
  by (cases ks) (simp_all add: filterEffect_def Let_def)

theorem recomputation_is_pure_witness:
  "filters state0 = filters state1 \<and> filteredKeys state0 \<noteq> filteredKeys state1
   \<and> filteredKeys (filterEffect host0 (Some [key_a, key_b, key_c]) state0)
     = filteredKeys (filterEffect host0 (Some [key_a, key_b, key_c]) state1)"
  using recomputation_is_pure [of state0 state1 host0 "Some [key_a, key_b, key_c]"]
  by (simp add: state0_def state1_def)

text \<open>
  C3. With all three predicates empty the filtered list is the whole key list; this is
  also the state after \<open>handleFilterReset\<close>.
\<close>

theorem empty_predicates_identity:
  "filteredKeys (filterEffect h (Some ks) (s\<lparr>filters := no_constraint\<rparr>)) = ks
   \<and> filteredKeys (filterEffect h (Some ks) (fst (handleFilterReset s))) = ks"
  by (simp add: filterEffect_def no_constraint_def handleFilterReset_def)

subsection \<open>Lookup lists\<close>

text \<open>
  C4. A candidate list from the parent replaces the held list exactly when it is strictly
  longer; otherwise (also on equal lengths, and for a \<open>null\<close> prop) the held list stays,
  so the held list never gets shorter. The same for teams and organizations.
\<close>

theorem grow_only_merge:
  "(length (allTeams s) < length ts \<longrightarrow> allTeams (teamsPropEffect (Some ts) s) = ts)
   \<and> (length ts \<le> length (allTeams s) \<longrightarrow>
        allTeams (teamsPropEffect (Some ts) s) = allTeams s)
   \<and> length (allTeams s) \<le> length (allTeams (teamsPropEffect tp s))
   \<and> (length (allOrganizations s) < length os \<longrightarrow>
        allOrganizations (organizationsPropEffect (Some os) s) = os)
   \<and> (length os \<le> length (allOrganizations s) \<longrightarrow>
        allOrganizations (organizationsPropEffect (Some os) s) = allOrganizations s)
   \<and> length (allOrganizations s) \<le> length (allOrganizations (organizationsPropEffect op s))"
  by (cases tp; cases op) (simp_all add: teamsPropEffect_def organizationsPropEffect_def)

theorem grow_only_merge_witness:
  "allTeams state1 = [team_1, team_2]
   \<and> allTeams (teamsPropEffect (Some [team_2, team_1, team_2]) state1)
       = [team_2, team_1, team_2]
   \<and> allTeams (teamsPropEffect (Some [team_2, team_1]) state1) = [team_1, team_2]
   \<and> allOrganizations state1 = [org_1, org_2]
   \<and> allOrganizations (organizationsPropEffect (Some [org_2, org_1, org_2]) state1)
       = [org_2, org_1, org_2]
   \<and> allOrganizations (organizationsPropEffect (Some [org_2, org_1]) state1) = [org_1, org_2]"
  using grow_only_merge [of state1 "[team_2, team_1, team_2]" None "[org_2, org_1, org_2]" None]
    grow_only_merge [of state1 "[team_2, team_1]" None "[org_2, org_1]" None]
  by (simp add: state1_def)

text \<open>
  C8. The mount-time load does not compare lengths: a fetched list of teams or
  organizations that is not empty becomes the held list, also when the held list is longer.
\<close>

theorem fetch_replaces_held:
  "(teamsData \<noteq> [] \<longrightarrow> allTeams (teamsLoaded teamsData s) = teamsData)
   \<and> (orgsData \<noteq> [] \<longrightarrow> allOrganizations (orgsLoaded orgsData s) = orgsData)
   \<and> (teamsData \<noteq> [] \<and> tk \<noteq> [] \<longrightarrow>
        allTeams (mountEffect (Some tk) aliases teamsData orgsData s) = teamsData)
   \<and> (orgsData \<noteq> [] \<and> tk \<noteq> [] \<longrightarrow>
        allOrganizations (mountEffect (Some tk) aliases teamsData orgsData s) = orgsData)"
  by (simp add: teamsLoaded_def orgsLoaded_def mountEffect_def loadAllFilterData_def
        aliasesLoaded_def)

theorem fetch_replaces_held_witness:
  "length [team_2] < length (allTeams state1)
   \<and> allTeams (mountEffect (Some ''tok'') [] [team_2] [org_2] state1) = [team_2]
   \<and> length [org_2] < length (allOrganizations state1)
   \<and> allOrganizations (mountEffect (Some ''tok'') [] [team_2] [org_2] state1) = [org_2]"
  using fetch_replaces_held [of "[team_2]" state1 "[org_2]" "''tok''" "[]"]
  by (simp add: state1_def)

subsection \<open>Pagination\<close>







text \<open>
  Values of the rounding: one half is a double, \<open>2 ^ 53 + 1\<close> lies between two doubles
  and goes to the even one, and one tenth goes to the double that JavaScript prints as 0.1.
\<close>

lemma fl_half: "fl (1 / 2) = Fin (1 / 2)"
  by code_simp

lemma fl_above_2_53: "fl (2 ^ 53 + 1) = Fin (2 ^ 53)"
  by code_simp

lemma fl_tenth: "fl (1 / 10) = Fin (3602879701896397 / 2 ^ 55)"
  by code_simp




subsection \<open>The two views\<close>

text \<open>
  C5, as stated, fails: the detail view is chosen by the truthiness of the selected
  identifier, so after a click on the Key ID button of a record whose token is the empty
  string the identifier is not \<open>null\<close> and the table is shown.
\<close>

theorem selected_empty_counterexample:
  "selectedKeyId (selectKey key_b state0) = Val []
   \<and> selectedKeyId (selectKey key_b state0) \<noteq> Null
   \<and> \<not> detailVisible (render props0 (selectKey key_b state0))
   \<and> tableVisible (render props0 (selectKey key_b state0))"
  by (simp add: selectKey_def key_b_def render_def cond_def)

text \<open>
  C5, amended. In every state exactly one of the two views is visible: the detail view
  for the selected identifier when that is a non-empty string, the table when it is
  \<open>null\<close> or empty. Closing the detail view clears the identifier and shows the table
  with the filter predicates as they were before the selection.
\<close>

theorem one_view_visible:
  "(detailVisible (render p s) \<noteq> tableVisible (render p s))
   \<and> (\<forall>keyId. selectedKeyId s = Val keyId \<and> keyId \<noteq> [] \<longrightarrow>
         render p s = KeyInfoView keyId (find (\<lambda>k. token k = Val keyId) (keys p)) (allTeams s))
   \<and> (\<not> truthy (selectedKeyId s) \<longrightarrow>
         render p s = TableView (filters s) (previousDisabled p) (nextDisabled p) (filteredKeys s))
   \<and> selectedKeyId (onClose s) = Null
   \<and> filters (onClose (selectKey k s)) = filters s
   \<and> render p (onClose (selectKey k s)) =
       TableView (filters s) (previousDisabled p) (nextDisabled p) (filteredKeys s)"
  by (cases "selectedKeyId s")
     (auto simp: render_def cond_def onClose_def selectKey_def strict_eq_def)

theorem one_view_visible_witness:
  "selectedKeyId (selectKey key_a state0) = Val ''sk-aaaaaaaa1''
   \<and> render props0 (selectKey key_a state0) = KeyInfoView ''sk-aaaaaaaa1'' (Some key_a) []
   \<and> \<not> truthy (selectedKeyId state0)
   \<and> render props0 state0 = TableView (filters state0) False False [key_b]
   \<and> render props0 (onClose (selectKey key_a state0))
       = TableView (filters state0) False False [key_b]"
proof -
  have sel: "selectedKeyId (selectKey key_a state0) = Val ''sk-aaaaaaaa1''"
    by (simp add: selectKey_def key_a_def)
  have found: "find (\<lambda>k. token k = Val ''sk-aaaaaaaa1'') (keys props0) = Some key_a"
    by (simp add: props0_def key_a_def)
  have teams0: "allTeams (selectKey key_a state0) = []"
    by (simp add: selectKey_def state0_def)
  have flags: "previousDisabled props0 = False" "nextDisabled props0 = False"
    by (simp_all add: previousDisabled_def nextDisabled_def props0_def)
  have fk: "filteredKeys state0 = [key_b]" and nosel: "\<not> truthy (selectedKeyId state0)"
    by (simp_all add: state0_def)
  show ?thesis
    using one_view_visible [of props0 "selectKey key_a state0" key_a]
      one_view_visible [of props0 state0 key_a] sel found teams0 flags fk nosel
    by simp
qed

subsection \<open>Cells\<close>

lemma cellOf_simps:
  "cellOf h s ''Key ID'' = Some keyIdCell"
  "cellOf h s ''Key Alias'' = Some keyAliasCell"
  "cellOf h s ''Secret Key'' = Some secretKeyCell"
  "cellOf h s ''Team Alias'' = Some (teamAliasCell s)"
  "cellOf h s ''Team ID'' = Some teamIdCell"
  "cellOf h s ''Organization ID'' = Some organizationIdCell"
  "cellOf h s ''User Email'' = Some (userEmailCell s)"
  "cellOf h s ''User ID'' = Some userIdCell"
  "cellOf h s ''Created At'' = Some (createdAtCell h)"
  "cellOf h s ''Created By'' = Some createdByCell"
  "cellOf h s ''Expires'' = Some (expiresCell h)"
  "cellOf h s ''Spend (USD)'' = Some (spendCell h)"
  "cellOf h s ''Budget (USD)'' = Some budgetCell"
  "cellOf h s ''Budget Reset'' = Some (budgetResetCell h)"
  "cellOf h s ''Models'' = Some modelsCell"
  "cellOf h s ''Rate Limits'' = Some rateLimitsCell"
  by (simp_all add: cellOf_def shownColumns_def columns_def)

lemma cond_nullish: "nullish v \<Longrightarrow> cond v f d = d"
  by (cases v) (simp_all add: cond_def)

lemma teamAlias_no_match:
  assumes "\<forall>t\<in>set (allTeams s). team_id k \<noteq> Val (t_team_id t)"
  shows "teamAliasCell s k = Text ''Unknown''"
proof -
  have "(case team_id k of Val teamId \<Rightarrow> find (\<lambda>t. t_team_id t = teamId) (allTeams s)
         | _ \<Rightarrow> None) = None"
    using assms by (cases "team_id k") (auto simp: find_None_iff)
  then show ?thesis by (simp add: teamAliasCell_def)
qed

lemma teamAlias_absent: "nullish (team_id k) \<Longrightarrow> teamAliasCell s k = Text ''Unknown''"
  by (cases "team_id k") (simp_all add: teamAliasCell_def)

lemma userEmail_no_match:
  assumes "\<forall>u\<in>set (userList s). user_id k \<noteq> Val (u_user_id u)"
  shows "userEmailCell s k = Text ''-''"
proof -
  have "(case user_id k of Val userId \<Rightarrow> find (\<lambda>u. u_user_id u = userId) (userList s)
         | _ \<Rightarrow> None) = None"
    using assms by (cases "user_id k") (auto simp: find_None_iff)
  then show ?thesis by (simp add: userEmailCell_def)
qed

lemma userEmail_absent: "nullish (user_id k) \<Longrightarrow> userEmailCell s k = Text ''-''"
  by (cases "user_id k") (simp_all add: userEmailCell_def)

lemma budget_absent: "nullish (max_budget k) \<Longrightarrow> budgetCell k = Text ''Unlimited''"
  by (cases "max_budget k") (simp_all add: budgetCell_def)

lemma models_absent: "nullish (models k) \<Longrightarrow> modelsCell k = Text ''-''"
  by (cases "models k") (simp_all add: modelsCell_def)

lemma secretKey_absent: "nullish (key_name k) \<Longrightarrow> secretKeyCell k = Nothing"
  by (cases "key_name k") (simp_all add: secretKeyCell_def)

lemma shown_fallback:
  "\<forall>c\<in>set (shownColumns h s).
      header c \<noteq> Some ''Secret Key'' \<and> header c \<noteq> Some ''Spend (USD)'' \<longrightarrow>
      (\<forall>fld. accessorKey c = Some fld \<and> absent fld k \<longrightarrow>
         (\<exists>t\<in>placeholders. cell c k = Text t))"
  by (simp add: shownColumns_def columns_def placeholders_def cond_nullish teamAlias_absent
        userEmail_absent budget_absent models_absent keyIdCell_def keyAliasCell_def
        teamIdCell_def organizationIdCell_def userIdCell_def createdAtCell_def createdByCell_def
        expiresCell_def budgetResetCell_def)

text \<open>
  C6. A record whose team identifier matches no known team shows "Unknown" in the Team
  Alias column; a record with a \<open>null\<close> expiry shows "Never" in the Expires column; a
  record with a \<open>null\<close> budget shows "Unlimited" in the Budget (USD) column.
\<close>

theorem absent_value_cells:
  "((\<forall>t\<in>set (allTeams s). team_id k \<noteq> Val (t_team_id t)) \<longrightarrow>
      renderCell h s ''Team Alias'' k = Some (Text ''Unknown''))
   \<and> (expires k = Null \<longrightarrow> renderCell h s ''Expires'' k = Some (Text ''Never''))
   \<and> (max_budget k = Null \<longrightarrow> renderCell h s ''Budget (USD)'' k = Some (Text ''Unlimited''))"
  by (simp add: renderCell_def cellOf_simps teamAlias_no_match expiresCell_def cond_def
        budgetCell_def)

theorem absent_value_cells_witness:
  "find (\<lambda>t. team_id key_d = Val (t_team_id t)) (allTeams state1) = None
   \<and> expires key_d = Null \<and> max_budget key_d = Null
   \<and> renderCell host0 state1 ''Team Alias'' key_d = Some (Text ''Unknown'')
   \<and> renderCell host0 state1 ''Expires'' key_d = Some (Text ''Never'')
   \<and> renderCell host0 state1 ''Budget (USD)'' key_d = Some (Text ''Unlimited'')"
proof -
  have h1: "\<forall>t\<in>set (allTeams state1). team_id key_d \<noteq> Val (t_team_id t)"
    by (simp add: state1_def key_d_def key_a_def team_1_def team_2_def)
  have h2: "expires key_d = Null" and h3: "max_budget key_d = Null"
    by (simp_all add: key_d_def key_a_def)
  have h0: "find (\<lambda>t. team_id key_d = Val (t_team_id t)) (allTeams state1) = None"
    by (simp add: state1_def key_d_def key_a_def team_1_def team_2_def)
  show ?thesis
    using absent_value_cells [of state1 key_d host0] h0 h1 h2 h3 by simp
qed

text \<open>
  C7, as stated, fails on two columns: for a record without \<open>key_name\<close> the Secret Key
  cell is empty, and for a record whose \<open>spend\<close> is \<open>null\<close> the Spend (USD) cell shows
  0.0000; neither is one of the four placeholders.
\<close>

theorem placeholder_counterexample:
  "absent F_key_name key_b \<and> renderCell host0 state1 ''Secret Key'' key_b = Some Nothing
   \<and> absent F_spend key_b
   \<and> renderCell host0 state1 ''Spend (USD)'' key_b = Some (Text ''0.0000'')
   \<and> ''0.0000'' \<notin> placeholders"
  by (simp add: renderCell_def cellOf_simps key_b_def secretKeyCell_def spendCell_def
        placeholders_def)

text \<open>
  C7, amended. Every shown column other than Secret Key and Spend (USD) shows one of the
  placeholders "-", "Unknown", "Never", "Unlimited" when the field it reads is \<open>null\<close>
  or \<open>undefined\<close>; Team Alias shows "Unknown" and User Email shows "-" when no team or
  user has the record's identifier; Rate Limits shows "Unlimited" for a limit that is
  \<open>null\<close>. Secret Key shows \<open>key_name\<close> as it is, which is nothing when it is absent,
  and Spend (USD) shows \<open>Number(spend).toFixed(4)\<close>: the formatted number, 0.0000 for
  \<open>null\<close> and NaN for \<open>undefined\<close>.
\<close>

theorem placeholder_fallbacks:
  "(\<forall>c\<in>set (shownColumns h s).
      header c \<noteq> Some ''Secret Key'' \<and> header c \<noteq> Some ''Spend (USD)'' \<longrightarrow>
      (\<forall>fld. accessorKey c = Some fld \<and> absent fld k \<longrightarrow>
         (\<exists>t\<in>placeholders. cell c k = Text t)))
   \<and> ((\<forall>t\<in>set (allTeams s). team_id k \<noteq> Val (t_team_id t)) \<longrightarrow>
        renderCell h s ''Team Alias'' k = Some (Text ''Unknown''))
   \<and> ((\<forall>u\<in>set (userList s). user_id k \<noteq> Val (u_user_id u)) \<longrightarrow>
        renderCell h s ''User Email'' k = Some (Text ''-''))
   \<and> (tpm_limit k = Null \<longrightarrow>
        (\<exists>r. renderCell h s ''Rate Limits'' k =
           Some (Nodes [Nodes [Text ''TPM: '', Text ''Unlimited''], r])))
   \<and> (rpm_limit k = Null \<longrightarrow>
        (\<exists>r. renderCell h s ''Rate Limits'' k =
           Some (Nodes [r, Nodes [Text ''RPM: '', Text ''Unlimited'']])))
   \<and> (nullish (key_name k) \<longrightarrow> renderCell h s ''Secret Key'' k = Some Nothing)
   \<and> (\<forall>v. key_name k = Val v \<longrightarrow> renderCell h s ''Secret Key'' k = Some (Text v))
   \<and> (spend k = Null \<longrightarrow> renderCell h s ''Spend (USD)'' k = Some (Text ''0.0000''))
   \<and> (spend k = Undefined \<longrightarrow> renderCell h s ''Spend (USD)'' k = Some (Text ''NaN''))
   \<and> (\<forall>n. spend k = Val n \<longrightarrow>
        renderCell h s ''Spend (USD)'' k = Some (Text (toFixed4 h n)))"
proof -
  have rate: "(tpm_limit k = Null \<longrightarrow>
        (\<exists>r. renderCell h s ''Rate Limits'' k =
           Some (Nodes [Nodes [Text ''TPM: '', Text ''Unlimited''], r])))
   \<and> (rpm_limit k = Null \<longrightarrow>
        (\<exists>r. renderCell h s ''Rate Limits'' k =
           Some (Nodes [r, Nodes [Text ''RPM: '', Text ''Unlimited'']])))"
    by (simp add: renderCell_def cellOf_simps rateLimitsCell_def limitNode_def)
  have spend: "(spend k = Null \<longrightarrow> renderCell h s ''Spend (USD)'' k = Some (Text ''0.0000''))
     \<and> (spend k = Undefined \<longrightarrow> renderCell h s ''Spend (USD)'' k = Some (Text ''NaN''))
     \<and> (\<forall>n. spend k = Val n \<longrightarrow>
          renderCell h s ''Spend (USD)'' k = Some (Text (toFixed4 h n)))"
    by (simp add: renderCell_def cellOf_simps spendCell_def)
  have refs: "((\<forall>t\<in>set (allTeams s). team_id k \<noteq> Val (t_team_id t)) \<longrightarrow>
        renderCell h s ''Team Alias'' k = Some (Text ''Unknown''))
   \<and> ((\<forall>u\<in>set (userList s). user_id k \<noteq> Val (u_user_id u)) \<longrightarrow>
        renderCell h s ''User Email'' k = Some (Text ''-''))"
    by (simp add: renderCell_def cellOf_simps teamAlias_no_match userEmail_no_match)
  have secret: "(nullish (key_name k) \<longrightarrow> renderCell h s ''Secret Key'' k = Some Nothing)
     \<and> (\<forall>v. key_name k = Val v \<longrightarrow> renderCell h s ''Secret Key'' k = Some (Text v))"
    by (cases "key_name k") (simp_all add: renderCell_def cellOf_simps secretKeyCell_def)
  from shown_fallback [of h s k] rate spend refs secret show ?thesis by blast
qed

theorem placeholder_fallbacks_witness:
  "absent F_key_alias key_b \<and> renderCell host0 state1 ''Key Alias'' key_b = Some (Text ''-'')
   \<and> absent F_created_by key_b
   \<and> renderCell host0 state1 ''Created By'' key_b = Some (Text ''Unknown'')
   \<and> absent F_budget_reset_at key_b
   \<and> renderCell host0 state1 ''Budget Reset'' key_b = Some (Text ''Never'')
   \<and> absent F_max_budget key_b
   \<and> renderCell host0 state1 ''Budget (USD)'' key_b = Some (Text ''Unlimited'')
   \<and> userList state1 = []
   \<and> renderCell host0 state1 ''User Email'' key_b = Some (Text ''-'')
   \<and> tpm_limit key_b = Null \<and> rpm_limit key_b = Null
   \<and> renderCell host0 state1 ''Rate Limits'' key_b =
       Some (Nodes [Nodes [Text ''TPM: '', Text ''Unlimited''],
                    Nodes [Text ''RPM: '', Text ''Unlimited'']])
   \<and> key_name key_a = Val ''sk-...a1''
   \<and> renderCell host0 state1 ''Secret Key'' key_a = Some (Text ''sk-...a1'')
   \<and> spend key_a = Val 3
   \<and> renderCell host0 state1 ''Spend (USD)'' key_a = Some (Text (toFixed4 host0 3))"
  using placeholder_fallbacks [of host0 state1 key_b] placeholder_fallbacks [of host0 state1 key_a]
  by (simp add: renderCell_def cellOf_simps key_a_def key_b_def state1_def state0_def
        keyAliasCell_def createdByCell_def budgetResetCell_def budgetCell_def userEmailCell_def
        rateLimitsCell_def limitNode_def cond_def secretKeyCell_def spendCell_def)

subsection \<open>The filter handlers and the parent's selection\<close>

lemma find_SomeD: "find P xs = Some x \<Longrightarrow> x \<in> set xs \<and> P x"
  by (induction xs) (auto split: if_splits)

lemma snd_handleFilterChange:
  "snd (handleFilterChange nf s) =
     teamCalls (nf ''Team ID'') (allTeams s)
       @ orgCalls (nf ''Organization ID'') (allOrganizations s)"
  by (simp add: handleFilterChange_def)

lemma teamCalls_cases:
  "teamCalls tv ts = [] \<or>
   (\<exists>v t. tv = Some v \<and> v \<noteq> [] \<and> t \<in> set ts \<and> t_team_id t = v
      \<and> teamCalls tv ts = [SetSelectedTeam (Some t)])"
proof (cases tv)
  case None
  then show ?thesis by (simp add: teamCalls_def)
next
  case (Some v)
  show ?thesis
  proof (cases "find (\<lambda>team. t_team_id team = v) ts")
    case None
    with Some show ?thesis by (simp add: teamCalls_def)
  next
    case (Some t)
    with \<open>tv = Some v\<close> find_SomeD [OF Some] show ?thesis
      by (cases "v = []") (simp_all add: teamCalls_def)
  qed
qed

lemma orgCalls_cases:
  "orgCalls ov os = [] \<or>
   (\<exists>v og. ov = Some v \<and> v \<noteq> [] \<and> og \<in> set os \<and> o_organization_id og = v
      \<and> orgCalls ov os = [SetCurrentOrg (Some og)])"
proof (cases ov)
  case None
  then show ?thesis by (simp add: orgCalls_def)
next
  case (Some v)
  show ?thesis
  proof (cases "find (\<lambda>og. o_organization_id og = v) os")
    case None
    with Some show ?thesis by (simp add: orgCalls_def)
  next
    case (Some og)
    with \<open>ov = Some v\<close> find_SomeD [OF Some] show ?thesis
      by (cases "v = []") (simp_all add: orgCalls_def)
  qed
qed

lemma teamCalls_only:
  assumes "SetSelectedTeam x \<in> set (snd (handleFilterChange nf s))"
  shows "\<exists>v t. nf ''Team ID'' = Some v \<and> v \<noteq> [] \<and> t \<in> set (allTeams s) \<and> t_team_id t = v
       \<and> x = Some t"
  using assms teamCalls_cases [of "nf ''Team ID''" "allTeams s"]
    orgCalls_cases [of "nf ''Organization ID''" "allOrganizations s"]
  unfolding snd_handleFilterChange by auto

lemma orgCalls_only:
  assumes "SetCurrentOrg x \<in> set (snd (handleFilterChange nf s))"
  shows "\<exists>v og. nf ''Organization ID'' = Some v \<and> v \<noteq> [] \<and> og \<in> set (allOrganizations s)
       \<and> o_organization_id og = v \<and> x = Some og"
  using assms teamCalls_cases [of "nf ''Team ID''" "allTeams s"]
    orgCalls_cases [of "nf ''Organization ID''" "allOrganizations s"]
  unfolding snd_handleFilterChange by auto

lemma cleared_team_unchanged:
  assumes "or_empty (nf ''Team ID'') = []"
  shows "sel_team (applyCalls par (snd (handleFilterChange nf s))) = sel_team par"
proof -
  have "teamCalls (nf ''Team ID'') (allTeams s) = []"
    using assms by (cases "nf ''Team ID''") (simp_all add: teamCalls_def or_empty_def)
  then show ?thesis
    using orgCalls_cases [of "nf ''Organization ID''" "allOrganizations s"]
    unfolding snd_handleFilterChange by (auto simp: applyCalls_def)
qed

lemma cleared_org_unchanged:
  assumes "or_empty (nf ''Organization ID'') = []"
  shows "sel_org (applyCalls par (snd (handleFilterChange nf s))) = sel_org par"
proof -
  have "orgCalls (nf ''Organization ID'') (allOrganizations s) = []"
    using assms by (cases "nf ''Organization ID''") (simp_all add: orgCalls_def or_empty_def)
  then show ?thesis
    using teamCalls_cases [of "nf ''Team ID''" "allTeams s"]
    unfolding snd_handleFilterChange by (auto simp: applyCalls_def)
qed

text \<open>
  C10. \<open>handleFilterChange\<close> calls \<open>setSelectedTeam\<close> only with a team of the held list
  whose identifier is the new, non-empty Team ID value, and \<open>setCurrentOrg\<close> only with
  an organization of the held list whose identifier is the new, non-empty Organization ID
  value. With an empty or missing Team ID (Organization ID) the parent's selected team
  (current organization) is what it was. \<open>handleFilterReset\<close> sets both to \<open>null\<close>.
\<close>

theorem selection_calls_guarded:
  "(\<forall>x. SetSelectedTeam x \<in> set (snd (handleFilterChange nf s)) \<longrightarrow>
      (\<exists>v t. nf ''Team ID'' = Some v \<and> v \<noteq> [] \<and> t \<in> set (allTeams s) \<and> t_team_id t = v
         \<and> x = Some t))
   \<and> (\<forall>x. SetCurrentOrg x \<in> set (snd (handleFilterChange nf s)) \<longrightarrow>
      (\<exists>v og. nf ''Organization ID'' = Some v \<and> v \<noteq> [] \<and> og \<in> set (allOrganizations s)
         \<and> o_organization_id og = v \<and> x = Some og))
   \<and> (or_empty (nf ''Team ID'') = [] \<longrightarrow>
        sel_team (applyCalls par (snd (handleFilterChange nf s))) = sel_team par)
   \<and> (or_empty (nf ''Organization ID'') = [] \<longrightarrow>
        sel_org (applyCalls par (snd (handleFilterChange nf s))) = sel_org par)
   \<and> applyCalls par (snd (handleFilterReset s)) = \<lparr>sel_team = None, sel_org = None\<rparr>"
proof -
  have reset: "applyCalls par (snd (handleFilterReset s)) = \<lparr>sel_team = None, sel_org = None\<rparr>"
    by (simp add: handleFilterReset_def applyCalls_def)
  show ?thesis
    using teamCalls_only [of _ nf s] orgCalls_only [of _ nf s]
      cleared_team_unchanged [of nf par s] cleared_org_unchanged [of nf par s] reset
    by blast
qed

theorem selection_calls_guarded_witness:
  "snd (handleFilterChange [''Team ID'' \<mapsto> ''team-2''] state1) = [SetSelectedTeam (Some team_2)]
   \<and> team_2 \<in> set (allTeams state1)
   \<and> or_empty ([''Team ID'' \<mapsto> ''team-2''] ''Organization ID'') = []
   \<and> applyCalls parent0 (snd (handleFilterChange [''Team ID'' \<mapsto> ''team-2''] state1))
       = \<lparr>sel_team = Some team_2, sel_org = Some org_1\<rparr>
   \<and> applyCalls parent0 (snd (handleFilterChange Map.empty state1)) = parent0
   \<and> applyCalls parent0 (snd (handleFilterReset state1)) = \<lparr>sel_team = None, sel_org = None\<rparr>"
  using selection_calls_guarded [of "[''Team ID'' \<mapsto> ''team-2'']" state1 parent0]
    selection_calls_guarded [of Map.empty state1 parent0]
  by (simp add: handleFilterChange_def teamCalls_def orgCalls_def state1_def team_1_def
        team_2_def or_empty_def applyCalls_def parent0_def handleFilterReset_def)

end
